theory Spec2Isabelle
  imports Main
begin

section \<open>The logger package (logger.go) over a model of the zap engine\<close>

text \<open>
  The package is a facade over the zap logging library. The facade's own functions
  (\<open>New\<close>, \<open>InitGlobal\<close>, \<open>Get\<close>, \<open>WithContext\<close>, \<open>FromEnv\<close>, \<open>getEnv\<close>) are
  translated from logger.go. What they call in the Go standard library and in zap is not
  part of the repository; it is modelled here from the behaviour of those libraries, and
  where that behaviour depends on the machine (whether zap can build a logger, the Unicode
  tables, the process environment) it is a parameter.

  A Go string is a sequence of bytes: \<open>string\<close>, a list of 8-bit \<open>char\<close>.
\<close>

subsection \<open>strings.ToUpper\<close>

text \<open>
  \<open>strings.ToUpper\<close> first scans the bytes. When all of them are below \<open>utf8.RuneSelf\<close>
  (0x80) it upper-cases the bytes \<open>a\<close> .. \<open>z\<close> by subtracting \<open>'a' - 'A'\<close> and keeps the
  others. Otherwise it returns \<open>strings.Map(unicode.ToUpper, s)\<close>, which needs the Unicode
  case tables: that path is the parameter \<open>unicodeUpper\<close> of \<open>Deps\<close> below.
\<close>

definition isASCII :: "string \<Rightarrow> bool" where
  "isASCII s = list_all (\<lambda>c. (of_char c :: nat) < 128) s"

definition upperByte :: "char \<Rightarrow> char" where
  "upperByte c =
     (if (97::nat) \<le> of_char c \<and> (of_char c :: nat) \<le> 122
      then char_of ((of_char c :: nat) - 32) else c)"

subsection \<open>zapcore.Level and the parts of zap's configuration that New fills in\<close>

text \<open>\<open>zapcore.Level\<close> is an \<open>int8\<close> with the named values \<open>DebugLevel = -1\<close> up to \<open>FatalLevel = 5\<close>.\<close>

datatype zapcore_Level =
  DebugLevel | InfoLevel | WarnLevel | ErrorLevel | DPanicLevel | PanicLevel | FatalLevel

fun levelValue :: "zapcore_Level \<Rightarrow> int" where
  "levelValue DebugLevel = -1"
| "levelValue InfoLevel = 0"
| "levelValue WarnLevel = 1"
| "levelValue ErrorLevel = 2"
| "levelValue DPanicLevel = 3"
| "levelValue PanicLevel = 4"
| "levelValue FatalLevel = 5"

text \<open>\<open>LevelEnabler.Enabled\<close> of a level \<open>l\<close> used as threshold: \<open>lvl >= l\<close>.\<close>

definition Enabled :: "zapcore_Level \<Rightarrow> zapcore_Level \<Rightarrow> bool" where
  "Enabled l lvl = (levelValue l \<le> levelValue lvl)"

datatype LevelEncoder = LowercaseLevelEncoder | CapitalColorLevelEncoder
datatype TimeEncoder = ISO8601TimeEncoder
datatype DurationEncoder = SecondsDurationEncoder | StringDurationEncoder
datatype CallerEncoder = ShortCallerEncoder

text \<open>\<open>zapcore.OmitKey\<close> is the empty string: a key equal to it is left out of the output.\<close>

definition OmitKey :: string where
  "OmitKey = []"

definition DefaultLineEnding :: string where
  "DefaultLineEnding = [CHR 0x0A]"

record EncoderConfig =
  TimeKey :: string
  LevelKey :: string
  NameKey :: string
  CallerKey :: string
  FunctionKey :: string
  MessageKey :: string
  StacktraceKey :: string
  LineEnding :: string
  EncodeLevel :: LevelEncoder
  EncodeTime :: TimeEncoder
  EncodeDuration :: DurationEncoder
  EncodeCaller :: CallerEncoder

text \<open>
  The keys of the six slots that both profiles of the package fill: time, level, logger
  name, caller, message, stack trace.
\<close>

definition slotKeys :: "EncoderConfig \<Rightarrow> string list" where
  "slotKeys e = [TimeKey e, LevelKey e, NameKey e, CallerKey e, MessageKey e, StacktraceKey e]"

record zap_Config =
  AtomicLevel :: zapcore_Level
  Development :: bool
  Encoding :: string
  EncoderCfg :: EncoderConfig
  OutputPaths :: "string list"
  ErrorOutputPaths :: "string list"

subsection \<open>What the package takes from outside\<close>

text \<open>
  \<^item> \<open>unicodeUpper s\<close>: the result of \<open>strings.Map(unicode.ToUpper, s)\<close>; \<open>ToUpper\<close> calls it
    only when \<open>s\<close> holds a byte of 0x80 or more.
  \<^item> \<open>buildError zc\<close>: the error, if any, with which \<open>zap.Config.Build\<close> refuses the
    configuration \<open>zc\<close> (an encoder that is not registered, a sink that cannot be opened).
\<close>

record Deps =
  unicodeUpper :: "string \<Rightarrow> string"
  buildError :: "zap_Config \<Rightarrow> string option"

definition ToUpper :: "Deps \<Rightarrow> string \<Rightarrow> string" where
  "ToUpper d s = (if isASCII s then map upperByte s else unicodeUpper d s)"

subsection \<open>LogLevel, Config\<close>

text \<open>\<open>type LogLevel string\<close> with its four constants.\<close>

type_synonym LogLevel = string

definition LevelDebug :: LogLevel where "LevelDebug = ''DEBUG''"
definition LevelInfo :: LogLevel where "LevelInfo = ''INFO''"
definition LevelWarn :: LogLevel where "LevelWarn = ''WARN''"
definition LevelError :: LogLevel where "LevelError = ''ERROR''"

record Config =
  Level :: LogLevel
  Environment :: string
  ServiceName :: string

subsection \<open>FromEnv, getEnv\<close>

text \<open>
  The process environment is a map from names to values; \<open>os.Getenv\<close> returns the empty
  string for a name that is not set.
\<close>

definition os_Getenv :: "(string \<rightharpoonup> string) \<Rightarrow> string \<Rightarrow> string" where
  "os_Getenv env key = (case env key of None \<Rightarrow> [] | Some v \<Rightarrow> v)"

definition getEnv :: "(string \<rightharpoonup> string) \<Rightarrow> string \<Rightarrow> string \<Rightarrow> string" where
  "getEnv env key defaultValue =
     (let value = os_Getenv env key in if value \<noteq> [] then value else defaultValue)"

definition FromEnv :: "(string \<rightharpoonup> string) \<Rightarrow> Config" where
  "FromEnv env =
     \<lparr> Level = getEnv env ''LOG_LEVEL'' ''INFO'',
       Environment = getEnv env ''APP_ENV'' ''development'',
       ServiceName = getEnv env ''APP_NAME'' ''gath-stack'' \<rparr>"

subsection \<open>New: the level switch and the zap configuration\<close>

text \<open>
  Lines 99 to 113 of logger.go: the switch on \<open>strings.ToUpper(string(cfg.Level))\<close>.
\<close>

definition New_zapLevel :: "Deps \<Rightarrow> LogLevel \<Rightarrow> zapcore_Level" where
  "New_zapLevel d lv =
     (let u = ToUpper d lv in
      if u = LevelDebug then DebugLevel
      else if u = LevelInfo then InfoLevel
      else if u = LevelWarn then WarnLevel
      else if u = LevelError then ErrorLevel
      else InfoLevel)"

definition productionEncoderConfig :: EncoderConfig where
  "productionEncoderConfig =
     \<lparr> TimeKey = ''timestamp'',
       LevelKey = ''level'',
       NameKey = ''logger'',
       CallerKey = ''caller'',
       FunctionKey = OmitKey,
       MessageKey = ''message'',
       StacktraceKey = ''stacktrace'',
       LineEnding = DefaultLineEnding,
       EncodeLevel = LowercaseLevelEncoder,
       EncodeTime = ISO8601TimeEncoder,
       EncodeDuration = SecondsDurationEncoder,
       EncodeCaller = ShortCallerEncoder \<rparr>"

definition developmentEncoderConfig :: EncoderConfig where
  "developmentEncoderConfig =
     \<lparr> TimeKey = ''T'',
       LevelKey = ''L'',
       NameKey = ''N'',
       CallerKey = ''C'',
       FunctionKey = OmitKey,
       MessageKey = ''M'',
       StacktraceKey = ''S'',
       LineEnding = DefaultLineEnding,
       EncodeLevel = CapitalColorLevelEncoder,
       EncodeTime = ISO8601TimeEncoder,
       EncodeDuration = StringDurationEncoder,
       EncodeCaller = ShortCallerEncoder \<rparr>"

text \<open>Lines 115 to 134: the \<open>zap.Config\<close> that New hands to \<open>Build\<close>.\<close>

definition New_zapConfig :: "Deps \<Rightarrow> Config \<Rightarrow> zap_Config" where
  "New_zapConfig d cfg =
     (let zapLevel = New_zapLevel d (Level cfg) in
      if Environment cfg = ''production''
      then \<lparr> AtomicLevel = zapLevel,
             Development = False,
             Encoding = ''json'',
             EncoderCfg = productionEncoderConfig,
             OutputPaths = [''stdout''],
             ErrorOutputPaths = [''stderr''] \<rparr>
      else \<lparr> AtomicLevel = zapLevel,
             Development = True,
             Encoding = ''console'',
             EncoderCfg = developmentEncoderConfig,
             OutputPaths = [''stdout''],
             ErrorOutputPaths = [''stderr''] \<rparr>)"

subsection \<open>The zap logger\<close>

text \<open>
  A \<open>zap.Field\<close> is a key with a typed value. \<open>zap.String(key, val)\<close> builds one of string
  type. The model keeps the fields that carry a value.
\<close>

datatype FieldValue =
  StringValue string | IntValue int | BoolValue bool | DurationValue int | ErrorValue string

datatype Field = Field (Key: string) (Val: FieldValue)

definition zap_String :: "string \<Rightarrow> string \<Rightarrow> Field" where
  "zap_String key val = Field key (StringValue val)"

text \<open>
  What a \<open>zap.Logger\<close> holds, as far as the package sets it: the core (threshold, encoder
  and the context fields that \<open>With\<close> has added, in the order they were added) and the
  options.
\<close>

record zap_Logger =
  core_level :: zapcore_Level
  core_encoding :: string
  core_enc :: EncoderConfig
  core_fields :: "Field list"
  development :: bool
  addCaller :: bool
  callerSkip :: int
  addStack :: zapcore_Level

datatype zap_Option = AddCallerSkip int | AddStacktrace zapcore_Level

fun applyOption :: "zap_Logger \<Rightarrow> zap_Option \<Rightarrow> zap_Logger" where
  "applyOption log (AddCallerSkip skip) = log\<lparr>callerSkip := callerSkip log + skip\<rparr>"
| "applyOption log (AddStacktrace lvl) = log\<lparr>addStack := lvl\<rparr>"

text \<open>
  \<open>zap.Config.Build\<close>: it fails when the encoder or the sinks cannot be set up (the
  parameter \<open>buildError\<close>). Otherwise the logger gets the options that the configuration
  implies (\<open>buildOptions\<close>: caller annotation on, stack traces from \<open>WarnLevel\<close> in
  development and from \<open>ErrorLevel\<close> otherwise), then the options of the call, in order.
\<close>

definition zap_Config_Build :: "Deps \<Rightarrow> zap_Config \<Rightarrow> zap_Option list \<Rightarrow> string + zap_Logger" where
  "zap_Config_Build d zc opts =
     (case buildError d zc of
        Some err \<Rightarrow> Inl err
      | None \<Rightarrow> Inr (foldl applyOption
                  \<lparr> core_level = AtomicLevel zc,
                    core_encoding = Encoding zc,
                    core_enc = EncoderCfg zc,
                    core_fields = [],
                    development = Development zc,
                    addCaller = True,
                    callerSkip = 0,
                    addStack = (if Development zc then WarnLevel else ErrorLevel) \<rparr>
                  opts))"

text \<open>
  \<open>zap.Logger.With\<close>: with no fields it returns the receiver; otherwise it returns a clone
  whose core has the fields added after those it already had. The receiver is not changed.
\<close>

definition zap_With :: "zap_Logger \<Rightarrow> Field list \<Rightarrow> zap_Logger" where
  "zap_With log flds =
     (if flds = [] then log else log\<lparr>core_fields := core_fields log @ flds\<rparr>)"

text \<open>
  A record as it reaches the sink: the encoder profile it is written with, level and
  message, whether caller and stack trace are attached, and the fields, the context of
  the logger first and the fields of the call after them.
\<close>

record Entry =
  ent_encoding :: string
  ent_enc :: EncoderConfig
  ent_level :: zapcore_Level
  ent_message :: string
  ent_caller :: bool
  ent_stack :: bool
  ent_fields :: "Field list"

text \<open>
  \<open>zap.Logger.check\<close> and \<open>CheckedEntry.Write\<close>: the core accepts the entry when its
  level is at or above the threshold.
\<close>

definition zap_write :: "zap_Logger \<Rightarrow> zapcore_Level \<Rightarrow> string \<Rightarrow> Field list \<Rightarrow> Entry option" where
  "zap_write log lvl msg flds =
     (if Enabled (core_level log) lvl
      then Some \<lparr> ent_encoding = core_encoding log,
                  ent_enc = core_enc log,
                  ent_level = lvl,
                  ent_message = msg,
                  ent_caller = addCaller log,
                  ent_stack = Enabled (addStack log) lvl,
                  ent_fields = core_fields log @ flds \<rparr>
      else None)"

text \<open>
  A call does not return normally when the receiver is nil, when zap panics after the
  write (\<open>Panic\<close>, and \<open>DPanic\<close> in development) or when it exits the process (\<open>Fatal\<close>).
\<close>

datatype fault = NilPointerDereference | ZapPanic | OsExit

definition zap_after :: "zap_Logger \<Rightarrow> zapcore_Level \<Rightarrow> fault option" where
  "zap_after log lvl =
     (case lvl of
        PanicLevel \<Rightarrow> Some ZapPanic
      | FatalLevel \<Rightarrow> Some OsExit
      | DPanicLevel \<Rightarrow> (if development log then Some ZapPanic else None)
      | _ \<Rightarrow> None)"

subsection \<open>Logger, the global variable and the sink\<close>

text \<open>
  \<open>type Logger struct { *zap.Logger }\<close>. zap never changes a logger it has returned, so the
  model keeps the embedded logger by value. The \<open>Logger\<close> structs that the package has
  allocated are the list \<open>loggers\<close>; a \<open>*Logger\<close> is \<open>None\<close> for nil or \<open>Some\<close> of an index
  in that list. \<open>globalLogger\<close> is the package variable and \<open>stdout\<close> the records written
  so far.
\<close>

record Logger =
  zapLogger :: zap_Logger

record World =
  loggers :: "Logger list"
  globalLogger :: "nat option"
  stdout :: "Entry list"

text \<open>The program starts with no logger allocated, \<open>globalLogger\<close> nil and nothing written.\<close>

definition initialWorld :: World where
  "initialWorld = \<lparr> loggers = [], globalLogger = None, stdout = [] \<rparr>"

text \<open>\<open>&Logger{...}\<close>: a new cell after all the cells that exist.\<close>

definition newLogger :: "Logger \<Rightarrow> World \<Rightarrow> nat \<times> World" where
  "newLogger l w = (length (loggers w), w\<lparr>loggers := loggers w @ [l]\<rparr>)"

text \<open>Following a \<open>*Logger\<close>; nil, or an index that was never allocated, gives \<open>None\<close>.\<close>

definition deref :: "World \<Rightarrow> nat option \<Rightarrow> Logger option" where
  "deref w l =
     (case l of
        None \<Rightarrow> None
      | Some p \<Rightarrow> (if p < length (loggers w) then Some (loggers w ! p) else None))"

subsection \<open>New, InitGlobal, Get, WithContext\<close>

definition New :: "Deps \<Rightarrow> Config \<Rightarrow> World \<Rightarrow> (string + nat) \<times> World" where
  "New d cfg w =
     (case zap_Config_Build d (New_zapConfig d cfg) [AddCallerSkip 1, AddStacktrace ErrorLevel] of
        Inl err \<Rightarrow> (Inl (''failed to build logger: '' @ err), w)
      | Inr zl \<Rightarrow>
          (case newLogger
                  \<lparr> zapLogger = zap_With zl
                      [zap_String ''service'' (ServiceName cfg),
                       zap_String ''environment'' (Environment cfg)] \<rparr> w of
             (p, w') \<Rightarrow> (Inr p, w')))"

definition InitGlobal :: "Deps \<Rightarrow> Config \<Rightarrow> World \<Rightarrow> string option \<times> World" where
  "InitGlobal d cfg w =
     (case New d cfg w of
        (Inl err, w') \<Rightarrow> (Some err, w')
      | (Inr logger, w') \<Rightarrow> (None, w'\<lparr>globalLogger := Some logger\<rparr>))"

definition defaultConfig :: Config where
  "defaultConfig = \<lparr> Level = LevelInfo, Environment = ''development'', ServiceName = ''gath-stack'' \<rparr>"

text \<open>
  \<open>logger, _ := New(cfg)\<close> drops the error; on failure \<open>logger\<close> is nil and nil is what is
  stored and returned.
\<close>

definition Get :: "Deps \<Rightarrow> World \<Rightarrow> nat option \<times> World" where
  "Get d w =
     (if globalLogger w = None
      then (case New d defaultConfig w of
              (r, w') \<Rightarrow>
                (let logger = (case r of Inl err \<Rightarrow> None | Inr p \<Rightarrow> Some p)
                 in (logger, w'\<lparr>globalLogger := logger\<rparr>)))
      else (globalLogger w, w))"

definition WithContext :: "nat option \<Rightarrow> Field list \<Rightarrow> World \<Rightarrow> fault + (nat \<times> World)" where
  "WithContext l flds w =
     (case deref w l of
        None \<Rightarrow> Inl NilPointerDereference
      | Some lg \<Rightarrow> Inr (newLogger \<lparr> zapLogger = zap_With (zapLogger lg) flds \<rparr> w))"

text \<open>
  The leveled methods that \<open>Logger\<close> has through the embedded \<open>*zap.Logger\<close>: the result
  is how the call ended (\<open>None\<close>: it returned) and the world after it.
\<close>

definition Logger_log :: "zapcore_Level \<Rightarrow> nat option \<Rightarrow> string \<Rightarrow> Field list \<Rightarrow> World \<Rightarrow> fault option \<times> World" where
  "Logger_log lvl l msg flds w =
     (case deref w l of
        None \<Rightarrow> (Some NilPointerDereference, w)
      | Some lg \<Rightarrow>
          (zap_after (zapLogger lg) lvl,
           (case zap_write (zapLogger lg) lvl msg flds of
              None \<Rightarrow> w
            | Some e \<Rightarrow> w\<lparr>stdout := stdout w @ [e]\<rparr>)))"

definition Logger_Debug :: "nat option \<Rightarrow> string \<Rightarrow> Field list \<Rightarrow> World \<Rightarrow> fault option \<times> World" where
  "Logger_Debug = Logger_log DebugLevel"

definition Logger_Info :: "nat option \<Rightarrow> string \<Rightarrow> Field list \<Rightarrow> World \<Rightarrow> fault option \<times> World" where
  "Logger_Info = Logger_log InfoLevel"

definition Logger_Warn :: "nat option \<Rightarrow> string \<Rightarrow> Field list \<Rightarrow> World \<Rightarrow> fault option \<times> World" where
  "Logger_Warn = Logger_log WarnLevel"

definition Logger_Error :: "nat option \<Rightarrow> string \<Rightarrow> Field list \<Rightarrow> World \<Rightarrow> fault option \<times> World" where
  "Logger_Error = Logger_log ErrorLevel"

subsection \<open>Sequences of calls\<close>

text \<open>\<open>n\<close> calls of \<open>Get\<close> one after the other: what each returned, and the world at the end.\<close>

fun Gets :: "Deps \<Rightarrow> nat \<Rightarrow> World \<Rightarrow> nat option list \<times> World" where
  "Gets d 0 w = ([], w)"
| "Gets d (Suc n) w =
     (case Get d w of (l, w') \<Rightarrow> (case Gets d n w' of (ls, w'') \<Rightarrow> (l # ls, w'')))"

text \<open>
  A chain of derivations: \<open>WithContext\<close> on the receiver with the first list of fields,
  then on the result with the second, and so on.
\<close>

fun deriveChain :: "nat option \<Rightarrow> Field list list \<Rightarrow> World \<Rightarrow> fault + (nat option \<times> World)" where
  "deriveChain l [] w = Inr (l, w)"
| "deriveChain l (flds # rest) w =
     (case WithContext l flds w of
        Inl f \<Rightarrow> Inl f
      | Inr (q, w') \<Rightarrow> deriveChain (Some q) rest w')"

text \<open>The records that reached the sink between two worlds.\<close>

definition written :: "World \<Rightarrow> World \<Rightarrow> Entry list" where
  "written w w' = drop (length (stdout w)) (stdout w')"

subsection \<open>The level rule as the specification words it\<close>

text \<open>
  Two strings match case-insensitively when they are equal once the letters \<open>A\<close> .. \<open>Z\<close>
  are replaced by \<open>a\<close> .. \<open>z\<close> in both. A level string resolves to the threshold whose
  name it matches, and to INFO when it matches none.
\<close>

definition lowerByte :: "char \<Rightarrow> char" where
  "lowerByte c =
     (if (65::nat) \<le> of_char c \<and> (of_char c :: nat) \<le> 90
      then char_of ((of_char c :: nat) + 32) else c)"

definition matchesIgnoringCase :: "string \<Rightarrow> string \<Rightarrow> bool" where
  "matchesIgnoringCase s t = (map lowerByte s = map lowerByte t)"

definition resolveSpec :: "string \<Rightarrow> zapcore_Level" where
  "resolveSpec s =
     (if matchesIgnoringCase s ''DEBUG'' then DebugLevel
      else if matchesIgnoringCase s ''INFO'' then InfoLevel
      else if matchesIgnoringCase s ''WARN'' then WarnLevel
      else if matchesIgnoringCase s ''ERROR'' then ErrorLevel
      else InfoLevel)"

section \<open>Properties\<close>

subsection \<open>Upper-casing and case-insensitive matching\<close>

lemma of_char_upperByte:
  "(of_char (upperByte c) :: nat) =
     (if 97 \<le> (of_char c :: nat) \<and> (of_char c :: nat) \<le> 122 then of_char c - 32 else of_char c)"
  by (auto simp: upperByte_def)

lemma of_char_lowerByte:
  "(of_char (lowerByte c) :: nat) =
     (if 65 \<le> (of_char c :: nat) \<and> (of_char c :: nat) \<le> 90 then of_char c + 32 else of_char c)"
  by (auto simp: lowerByte_def)

lemma upperByte_lowerByte: "upperByte c = upperByte c' \<longleftrightarrow> lowerByte c = lowerByte c'"
proof -
  have "(upperByte c = upperByte c') = ((of_char (upperByte c) :: nat) = of_char (upperByte c'))"
    by simp
  moreover have "(lowerByte c = lowerByte c') = ((of_char (lowerByte c) :: nat) = of_char (lowerByte c'))"
    by simp
  moreover have "((of_char (upperByte c) :: nat) = of_char (upperByte c'))
      = ((of_char (lowerByte c) :: nat) = of_char (lowerByte c'))"
    unfolding of_char_upperByte of_char_lowerByte by presburger
  ultimately show ?thesis by blast
qed

lemma map_upper_lower: "map upperByte s = map upperByte t \<longleftrightarrow> map lowerByte s = map lowerByte t"
proof (induction s arbitrary: t)
  case Nil then show ?case by simp
next
  case (Cons a s) then show ?case by (cases t) (auto simp: upperByte_lowerByte)
qed

lemma lowerByte_nonascii: "\<not> (of_char c :: nat) < 128 \<Longrightarrow> lowerByte c = c"
  by (simp add: lowerByte_def)

lemma isASCII_map_lower: "isASCII (map lowerByte s) = isASCII s"
  by (induction s) (auto simp: isASCII_def of_char_lowerByte)


lemma upperByte_names:
  "map upperByte ''DEBUG'' = ''DEBUG''" "map upperByte ''INFO'' = ''INFO''"
  "map upperByte ''WARN'' = ''WARN''" "map upperByte ''ERROR'' = ''ERROR''"
  by (simp_all add: upperByte_def)

lemma ascii_match:
  assumes "map upperByte t = t"
  shows "(map upperByte s = t) = matchesIgnoringCase s t"
proof -
  have "(map upperByte s = t) = (map upperByte s = map upperByte t)" using assms by simp
  then show ?thesis by (simp add: map_upper_lower matchesIgnoringCase_def)
qed

lemma nonascii_no_match:
  assumes "\<not> isASCII s" "isASCII t"
  shows "\<not> matchesIgnoringCase s t"
proof
  assume "matchesIgnoringCase s t"
  then have "isASCII (map lowerByte s) = isASCII (map lowerByte t)"
    by (simp add: matchesIgnoringCase_def)
  with assms show False by (simp add: isASCII_map_lower)
qed

lemma isASCII_names:
  "isASCII ''DEBUG''" "isASCII ''INFO''" "isASCII ''WARN''" "isASCII ''ERROR''"
  by (simp_all add: isASCII_def)


subsection \<open>Construction, pointers and the sink\<close>

lemma core_fields_zap_With: "core_fields (zap_With log flds) = core_fields log @ flds"
  by (simp add: zap_With_def)

lemma zap_With_keeps:
  "core_level (zap_With log flds) = core_level log"
  "core_encoding (zap_With log flds) = core_encoding log"
  "core_enc (zap_With log flds) = core_enc log"
  by (simp_all add: zap_With_def)

lemma New_fails:
  assumes "buildError d (New_zapConfig d cfg) = Some err"
  shows "New d cfg w = (Inl (''failed to build logger: '' @ err), w)"
  using assms by (simp add: New_def zap_Config_Build_def)

lemma applyOption_keeps:
  "core_level (applyOption log opt) = core_level log"
  "core_encoding (applyOption log opt) = core_encoding log"
  "core_enc (applyOption log opt) = core_enc log"
  "core_fields (applyOption log opt) = core_fields log"
  by (cases opt; simp)+

lemma New_succeeds:
  assumes "buildError d (New_zapConfig d cfg) = None"
  shows "\<exists>lg. New d cfg w = (Inr (length (loggers w)), w\<lparr>loggers := loggers w @ [lg]\<rparr>)
           \<and> core_level (zapLogger lg) = New_zapLevel d (Level cfg)
           \<and> core_encoding (zapLogger lg) = Encoding (New_zapConfig d cfg)
           \<and> core_enc (zapLogger lg) = EncoderCfg (New_zapConfig d cfg)
           \<and> core_fields (zapLogger lg) =
               [zap_String ''service'' (ServiceName cfg), zap_String ''environment'' (Environment cfg)]"
proof -
  obtain zl where zl: "zap_Config_Build d (New_zapConfig d cfg)
      [AddCallerSkip 1, AddStacktrace ErrorLevel] = Inr zl"
    and "core_level zl = AtomicLevel (New_zapConfig d cfg)"
    and "core_encoding zl = Encoding (New_zapConfig d cfg)"
    and "core_enc zl = EncoderCfg (New_zapConfig d cfg)"
    and "core_fields zl = []"
    using assms by (simp add: zap_Config_Build_def applyOption_keeps)
  moreover have "AtomicLevel (New_zapConfig d cfg) = New_zapLevel d (Level cfg)"
    by (simp add: New_zapConfig_def Let_def)
  ultimately show ?thesis
    by (intro exI [of _ "\<lparr>zapLogger = zap_With zl
          [zap_String ''service'' (ServiceName cfg), zap_String ''environment'' (Environment cfg)]\<rparr>"])
      (simp add: New_def newLogger_def core_fields_zap_With zap_With_keeps)
qed

lemma New_Inr:
  assumes "New d cfg w = (Inr p, w')"
  shows "buildError d (New_zapConfig d cfg) = None"
proof (cases "buildError d (New_zapConfig d cfg)")
  case None then show ?thesis .
next
  case (Some err)
  with assms New_fails [OF Some, of w] show ?thesis by simp
qed

lemma New_Inl:
  assumes "New d cfg w = (Inl e, w')"
  shows "\<exists>err. buildError d (New_zapConfig d cfg) = Some err \<and> e = ''failed to build logger: '' @ err \<and> w' = w"
proof (cases "buildError d (New_zapConfig d cfg)")
  case None
  with assms New_succeeds [OF None, of w] show ?thesis by auto
next
  case (Some err)
  with assms New_fails [OF Some, of w] show ?thesis by simp
qed

lemma deref_Some:
  "deref w (Some p) = Some lg \<longleftrightarrow> p < length (loggers w) \<and> loggers w ! p = lg"
  by (auto simp: deref_def)

lemma deref_grow:
  assumes "deref w (Some p) = Some lg"
  shows "deref (w\<lparr>loggers := loggers w @ ls\<rparr>) (Some p) = Some lg"
  using assms by (auto simp: deref_Some nth_append)

lemma deref_new:
  "deref (w\<lparr>loggers := loggers w @ [lg]\<rparr>) (Some (length (loggers w))) = Some lg"
  by (simp add: deref_Some)

lemma deref_stdout [simp]: "deref (w\<lparr>stdout := x\<rparr>) l = deref w l"
  by (cases l) (simp_all add: deref_def)

lemma deref_global [simp]: "deref (w\<lparr>globalLogger := x\<rparr>) l = deref w l"
  by (cases l) (simp_all add: deref_def)

lemma WithContext_live:
  assumes "deref w (Some p) = Some lg"
  shows "WithContext (Some p) flds w =
           Inr (length (loggers w),
                w\<lparr>loggers := loggers w @ [\<lparr>zapLogger = zap_With (zapLogger lg) flds\<rparr>]\<rparr>)"
  using assms by (simp add: WithContext_def newLogger_def)

lemma WithContext_Inr:
  assumes "WithContext l flds w = Inr (q, w')"
  shows "\<exists>p lg. l = Some p \<and> deref w l = Some lg \<and> q = length (loggers w)
           \<and> w' = w\<lparr>loggers := loggers w @ [\<lparr>zapLogger = zap_With (zapLogger lg) flds\<rparr>]\<rparr>"
  using assms by (cases l) (auto simp: WithContext_def newLogger_def deref_def split: if_splits)

lemma Logger_log_live:
  assumes "deref w l = Some lg"
  shows "snd (Logger_log lvl l msg flds w) =
           (if Enabled (core_level (zapLogger lg)) lvl
            then w\<lparr>stdout := stdout w @
                   [\<lparr> ent_encoding = core_encoding (zapLogger lg),
                      ent_enc = core_enc (zapLogger lg),
                      ent_level = lvl,
                      ent_message = msg,
                      ent_caller = addCaller (zapLogger lg),
                      ent_stack = Enabled (addStack (zapLogger lg)) lvl,
                      ent_fields = core_fields (zapLogger lg) @ flds \<rparr>]\<rparr>
            else w)"
  using assms by (simp add: Logger_log_def zap_write_def)

lemma Logger_log_nil:
  assumes "deref w l = None"
  shows "Logger_log lvl l msg flds w = (Some NilPointerDereference, w)"
  using assms by (simp add: Logger_log_def)

lemma written_append [simp]: "written w (w'\<lparr>stdout := stdout w @ es\<rparr>) = es"
  by (simp add: written_def)

lemma written_self [simp]: "written w w = []"
  by (simp add: written_def)

lemma deriveChain_fields:
  assumes "deriveChain (Some p) fss w = Inr (q, w')" and "deref w (Some p) = Some lg"
  shows "\<exists>lg'. deref w' q = Some lg'
            \<and> core_fields (zapLogger lg') = core_fields (zapLogger lg) @ concat fss"
  using assms
proof (induction fss arbitrary: p w lg)
  case Nil
  then show ?case by simp
next
  case (Cons flds rest)
  let ?lg1 = "\<lparr>zapLogger = zap_With (zapLogger lg) flds\<rparr>"
  let ?w1 = "w\<lparr>loggers := loggers w @ [?lg1]\<rparr>"
  from Cons.prems have step: "deriveChain (Some (length (loggers w))) rest ?w1 = Inr (q, w')"
    by (simp add: WithContext_live)
  have live: "deref ?w1 (Some (length (loggers w))) = Some ?lg1" by (rule deref_new)
  from Cons.IH [OF step live] show ?case by (auto simp: core_fields_zap_With)
qed

subsection \<open>The global variable\<close>

lemma Get_initialized:
  assumes "globalLogger w = Some p"
  shows "Get d w = (Some p, w)"
  using assms by (simp add: Get_def)

lemma Gets_initialized:
  assumes "globalLogger w = Some p"
  shows "Gets d n w = (replicate n (Some p), w)"
  by (induction n) (simp_all add: Get_initialized [OF assms])

lemma InitGlobal_fails:
  assumes "buildError d (New_zapConfig d cfg) = Some err"
  shows "InitGlobal d cfg w = (Some (''failed to build logger: '' @ err), w)"
  by (simp add: InitGlobal_def New_fails [OF assms])

lemma InitGlobal_succeeds:
  assumes "buildError d (New_zapConfig d cfg) = None"
  shows "\<exists>w'. New d cfg w = (Inr (length (loggers w)), w')
           \<and> InitGlobal d cfg w = (None, w'\<lparr>globalLogger := Some (length (loggers w))\<rparr>)
           \<and> length (loggers w') = Suc (length (loggers w))
           \<and> globalLogger w' = globalLogger w"
  using New_succeeds [OF assms, of w] by (auto simp: InitGlobal_def)


section \<open>The claims\<close>

text \<open>
  C1. \<open>New\<close> chooses the encoder profile by the test \<open>cfg.Environment == "production"\<close>
  alone, an exact comparison of the bytes: the zap configuration it builds has the JSON
  encoding with \<open>productionEncoderConfig\<close> when the test holds and the console encoding
  with \<open>developmentEncoderConfig\<close> for every other value, the empty string included. The
  first has the keys timestamp, level, logger, caller, message, stacktrace, the second
  T, L, N, C, M, S, and in both the function key is \<open>OmitKey\<close>. When \<open>New\<close> returns a
  logger, that logger writes with the profile chosen.
\<close>

theorem New_selects_profile:
  "EncoderCfg (New_zapConfig d cfg) =
     (if Environment cfg = ''production'' then productionEncoderConfig else developmentEncoderConfig)
   \<and> Encoding (New_zapConfig d cfg) = (if Environment cfg = ''production'' then ''json'' else ''console'')
   \<and> slotKeys productionEncoderConfig =
       [''timestamp'', ''level'', ''logger'', ''caller'', ''message'', ''stacktrace'']
   \<and> slotKeys developmentEncoderConfig = [''T'', ''L'', ''N'', ''C'', ''M'', ''S'']
   \<and> FunctionKey productionEncoderConfig = OmitKey
   \<and> FunctionKey developmentEncoderConfig = OmitKey
   \<and> (New d cfg w = (Inr p, w') \<longrightarrow>
        (\<exists>lg. deref w' (Some p) = Some lg
           \<and> core_enc (zapLogger lg) = EncoderCfg (New_zapConfig d cfg)
           \<and> core_encoding (zapLogger lg) = Encoding (New_zapConfig d cfg)))"
proof -
  have "New d cfg w = (Inr p, w') \<longrightarrow>
        (\<exists>lg. deref w' (Some p) = Some lg
           \<and> core_enc (zapLogger lg) = EncoderCfg (New_zapConfig d cfg)
           \<and> core_encoding (zapLogger lg) = Encoding (New_zapConfig d cfg))"
  proof
    assume n: "New d cfg w = (Inr p, w')"
    from New_succeeds [OF New_Inr [OF n], of w] n show "\<exists>lg. deref w' (Some p) = Some lg
           \<and> core_enc (zapLogger lg) = EncoderCfg (New_zapConfig d cfg)
           \<and> core_encoding (zapLogger lg) = Encoding (New_zapConfig d cfg)"
      by (auto simp: deref_new)
  qed
  moreover have "EncoderCfg (New_zapConfig d cfg) =
     (if Environment cfg = ''production'' then productionEncoderConfig else developmentEncoderConfig)"
    "Encoding (New_zapConfig d cfg) = (if Environment cfg = ''production'' then ''json'' else ''console'')"
    by (simp_all add: New_zapConfig_def Let_def)
  moreover have "slotKeys productionEncoderConfig =
       [''timestamp'', ''level'', ''logger'', ''caller'', ''message'', ''stacktrace'']"
    "slotKeys developmentEncoderConfig = [''T'', ''L'', ''N'', ''C'', ''M'', ''S'']"
    "FunctionKey productionEncoderConfig = OmitKey"
    "FunctionKey developmentEncoderConfig = OmitKey"
    by (simp_all add: slotKeys_def productionEncoderConfig_def developmentEncoderConfig_def)
  ultimately show ?thesis by blast
qed

theorem New_selects_profile_witness:
  "New \<lparr>unicodeUpper = (\<lambda>s. s), buildError = (\<lambda>zc. None)\<rparr>
       \<lparr>Level = ''debug'', Environment = ''production'', ServiceName = ''svc''\<rparr> initialWorld
     = (Inr 0, snd (New \<lparr>unicodeUpper = (\<lambda>s. s), buildError = (\<lambda>zc. None)\<rparr>
       \<lparr>Level = ''debug'', Environment = ''production'', ServiceName = ''svc''\<rparr> initialWorld))
   \<and> (\<exists>lg. deref (snd (New \<lparr>unicodeUpper = (\<lambda>s. s), buildError = (\<lambda>zc. None)\<rparr>
       \<lparr>Level = ''debug'', Environment = ''production'', ServiceName = ''svc''\<rparr> initialWorld)) (Some 0) = Some lg
         \<and> core_encoding (zapLogger lg) = ''json''
         \<and> slotKeys (core_enc (zapLogger lg)) =
             [''timestamp'', ''level'', ''logger'', ''caller'', ''message'', ''stacktrace''])
   \<and> slotKeys (EncoderCfg (New_zapConfig \<lparr>unicodeUpper = (\<lambda>s. s), buildError = (\<lambda>zc. None)\<rparr>
       \<lparr>Level = ''debug'', Environment = ''Production'', ServiceName = ''svc''\<rparr>))
       = [''T'', ''L'', ''N'', ''C'', ''M'', ''S'']
   \<and> slotKeys (EncoderCfg (New_zapConfig \<lparr>unicodeUpper = (\<lambda>s. s), buildError = (\<lambda>zc. None)\<rparr>
       \<lparr>Level = ''debug'', Environment = [], ServiceName = ''svc''\<rparr>))
       = [''T'', ''L'', ''N'', ''C'', ''M'', ''S'']"
proof -
  let ?d = "\<lparr>unicodeUpper = (\<lambda>s. s), buildError = (\<lambda>zc. None)\<rparr>"
  let ?c = "\<lparr>Level = ''debug'', Environment = ''production'', ServiceName = ''svc''\<rparr>"
  let ?w = "snd (New ?d ?c initialWorld)"
  have h: "New ?d ?c initialWorld = (Inr 0, ?w)" by code_simp
  from h New_selects_profile [of ?d ?c initialWorld 0 ?w]
  obtain lg where "deref ?w (Some 0) = Some lg" "core_encoding (zapLogger lg) = ''json''"
    "slotKeys (core_enc (zapLogger lg)) =
       [''timestamp'', ''level'', ''logger'', ''caller'', ''message'', ''stacktrace'']"
    by auto
  moreover have "slotKeys (EncoderCfg (New_zapConfig ?d
      \<lparr>Level = ''debug'', Environment = ''Production'', ServiceName = ''svc''\<rparr>))
       = [''T'', ''L'', ''N'', ''C'', ''M'', ''S'']"
    using New_selects_profile [of ?d
      "\<lparr>Level = ''debug'', Environment = ''Production'', ServiceName = ''svc''\<rparr>"
      initialWorld 0 initialWorld]
    by simp
  moreover have "slotKeys (EncoderCfg (New_zapConfig ?d
      \<lparr>Level = ''debug'', Environment = [], ServiceName = ''svc''\<rparr>))
       = [''T'', ''L'', ''N'', ''C'', ''M'', ''S'']"
    using New_selects_profile [of ?d
      "\<lparr>Level = ''debug'', Environment = [], ServiceName = ''svc''\<rparr>"
      initialWorld 0 initialWorld]
    by simp
  ultimately show ?thesis using h by blast
qed

text \<open>
  C2. The level switch of \<open>New\<close> agrees with the rule of the specification on every
  string: a string that matches DEBUG, INFO, WARN or ERROR without regard to case gets
  that threshold, every other string gets INFO, and the result is always one of the four
  thresholds (the switch has no failing branch). For a string with a byte of 0x80 or more
  the upper-casing is done by Go's Unicode tables, which are outside the package; the
  premise says of them only that they do not turn such a string into \<open>DEBUG\<close>, \<open>WARN\<close> or
  \<open>ERROR\<close> (no letter of these three names is the upper case of a non-ASCII character).
\<close>

theorem New_zapLevel_case_insensitive:
  assumes "\<not> isASCII s \<Longrightarrow> unicodeUpper d s \<notin> {''DEBUG'', ''WARN'', ''ERROR''}"
  shows "New_zapLevel d s = resolveSpec s
         \<and> New_zapLevel d s \<in> {DebugLevel, InfoLevel, WarnLevel, ErrorLevel}"
proof -
  have "New_zapLevel d s = resolveSpec s"
  proof (cases "isASCII s")
    case True
    then have "ToUpper d s = map upperByte s" by (simp add: ToUpper_def)
    then show ?thesis
      by (simp add: New_zapLevel_def resolveSpec_def LevelDebug_def LevelInfo_def LevelWarn_def
          LevelError_def ascii_match upperByte_names del: list.map)
  next
    case False
    then have u: "ToUpper d s = unicodeUpper d s" by (simp add: ToUpper_def)
    have "resolveSpec s = InfoLevel"
      using False by (simp add: resolveSpec_def nonascii_no_match isASCII_names)
    moreover have "New_zapLevel d s = InfoLevel"
      using assms [OF False] u
      by (simp add: New_zapLevel_def Let_def LevelDebug_def LevelInfo_def LevelWarn_def LevelError_def)
    ultimately show ?thesis by simp
  qed
  moreover have "resolveSpec s \<in> {DebugLevel, InfoLevel, WarnLevel, ErrorLevel}"
    by (simp add: resolveSpec_def)
  ultimately show ?thesis by simp
qed

theorem New_zapLevel_case_insensitive_witness:
  "New_zapLevel \<lparr>unicodeUpper = (\<lambda>s. ''INFO''), buildError = (\<lambda>zc. None)\<rparr> ''wArN'' = WarnLevel
   \<and> New_zapLevel \<lparr>unicodeUpper = (\<lambda>s. ''INFO''), buildError = (\<lambda>zc. None)\<rparr> ''verbose'' = InfoLevel
   \<and> New_zapLevel \<lparr>unicodeUpper = (\<lambda>s. ''INFO''), buildError = (\<lambda>zc. None)\<rparr>
        [CHR 0xC4, CHR 0xB1, CHR ''n'', CHR ''f'', CHR ''o''] = InfoLevel"
proof -
  let ?d = "\<lparr>unicodeUpper = (\<lambda>s. ''INFO''), buildError = (\<lambda>zc. None)\<rparr>"
  have a: "\<not> isASCII ''wArN'' \<Longrightarrow> unicodeUpper ?d ''wArN'' \<notin> {''DEBUG'', ''WARN'', ''ERROR''}"
    by simp
  have b: "\<not> isASCII ''verbose'' \<Longrightarrow> unicodeUpper ?d ''verbose'' \<notin> {''DEBUG'', ''WARN'', ''ERROR''}"
    by simp
  have c: "\<not> isASCII [CHR 0xC4, CHR 0xB1, CHR ''n'', CHR ''f'', CHR ''o'']
      \<Longrightarrow> unicodeUpper ?d [CHR 0xC4, CHR 0xB1, CHR ''n'', CHR ''f'', CHR ''o'']
         \<notin> {''DEBUG'', ''WARN'', ''ERROR''}"
    by simp
  have r: "resolveSpec ''wArN'' = WarnLevel" "resolveSpec ''verbose'' = InfoLevel"
    "resolveSpec [CHR 0xC4, CHR 0xB1, CHR ''n'', CHR ''f'', CHR ''o''] = InfoLevel"
    by code_simp+
  show ?thesis
    using New_zapLevel_case_insensitive [of "''wArN''" ?d, OF a]
      New_zapLevel_case_insensitive [of "''verbose''" ?d, OF b]
      New_zapLevel_case_insensitive [of "[CHR 0xC4, CHR 0xB1, CHR ''n'', CHR ''f'', CHR ''o'']" ?d, OF c]
    by (simp only: r simp_thms)
qed

text \<open>
  C3. Take a logger that \<open>New\<close> has built from \<open>cfg\<close>, derive from it through any
  chain of \<open>WithContext\<close> calls (none, one or many), and log with the result at any level:
  whatever that call writes carries the field \<open>service\<close> with \<open>cfg.ServiceName\<close> and the
  field \<open>environment\<close> with \<open>cfg.Environment\<close>, the string as configured.
\<close>

theorem New_attaches_service_environment:
  assumes "New d cfg w = (Inr p, w1)"
    and "deriveChain (Some p) fss w1 = Inr (q, w2)"
    and "Logger_log lvl q msg flds w2 = (r, w3)"
  shows "stdout w3 = stdout w2 @ written w2 w3
         \<and> (\<forall>e \<in> set (written w2 w3).
               zap_String ''service'' (ServiceName cfg) \<in> set (ent_fields e)
               \<and> zap_String ''environment'' (Environment cfg) \<in> set (ent_fields e))"
proof -
  from New_succeeds [OF New_Inr [OF assms(1)], of w] assms(1)
  obtain lg where lg: "deref w1 (Some p) = Some lg"
    and f: "core_fields (zapLogger lg) =
      [zap_String ''service'' (ServiceName cfg), zap_String ''environment'' (Environment cfg)]"
    by (auto simp: deref_new)
  from deriveChain_fields [OF assms(2) lg] obtain lg' where lg': "deref w2 q = Some lg'"
    and f': "core_fields (zapLogger lg') = core_fields (zapLogger lg) @ concat fss"
    by blast
  have "w3 = snd (Logger_log lvl q msg flds w2)" using assms(3) by simp
  then show ?thesis
    by (simp add: Logger_log_live [OF lg'] f f')
qed

theorem New_attaches_service_environment_witness:
  "(let d = \<lparr>unicodeUpper = (\<lambda>s. s), buildError = (\<lambda>zc. None)\<rparr>;
        cfg = \<lparr>Level = ''info'', Environment = ''staging'', ServiceName = ''svc''\<rparr>;
        w1 = snd (New d cfg initialWorld);
        fss = [[zap_String ''component'' ''auth''], [zap_String ''request_id'' ''req-42a'']];
        w2 = snd (projr (deriveChain (Some 0) fss w1));
        w3 = snd (Logger_log ErrorLevel (Some 2) ''denied'' [zap_String ''user'' ''alice''] w2)
    in New d cfg initialWorld = (Inr 0, w1)
       \<and> deriveChain (Some 0) fss w1 = Inr (Some 2, w2)
       \<and> Logger_log ErrorLevel (Some 2) ''denied'' [zap_String ''user'' ''alice''] w2 = (None, w3)
       \<and> written w2 w3 \<noteq> []
       \<and> zap_String ''service'' ''svc'' \<in> set (ent_fields (hd (written w2 w3)))
       \<and> zap_String ''environment'' ''staging'' \<in> set (ent_fields (hd (written w2 w3))))"
proof -
  let ?d = "\<lparr>unicodeUpper = (\<lambda>s. s), buildError = (\<lambda>zc. None)\<rparr>"
  let ?cfg = "\<lparr>Level = ''info'', Environment = ''staging'', ServiceName = ''svc''\<rparr>"
  let ?w1 = "snd (New ?d ?cfg initialWorld)"
  let ?fss = "[[zap_String ''component'' ''auth''], [zap_String ''request_id'' ''req-42a'']]"
  let ?w2 = "snd (projr (deriveChain (Some 0) ?fss ?w1))"
  let ?w3 = "snd (Logger_log ErrorLevel (Some 2) ''denied'' [zap_String ''user'' ''alice''] ?w2)"
  have h1: "New ?d ?cfg initialWorld = (Inr 0, ?w1)" by code_simp
  have h2: "deriveChain (Some 0) ?fss ?w1 = Inr (Some 2, ?w2)" by code_simp
  have h3: "Logger_log ErrorLevel (Some 2) ''denied'' [zap_String ''user'' ''alice''] ?w2 = (None, ?w3)"
    by code_simp
  have ne: "written ?w2 ?w3 \<noteq> []" by code_simp
  then have "hd (written ?w2 ?w3) \<in> set (written ?w2 ?w3)" by simp
  with New_attaches_service_environment [OF h1 h2 h3]
  have "zap_String ''service'' ''svc'' \<in> set (ent_fields (hd (written ?w2 ?w3)))
       \<and> zap_String ''environment'' ''staging'' \<in> set (ent_fields (hd (written ?w2 ?w3)))"
    by simp
  with h1 h2 h3 ne show ?thesis unfolding Let_def by blast
qed

text \<open>
  C4. \<open>InitGlobal\<close> returns an error exactly when zap's \<open>Build\<close> refuses the
  configuration, and the error is that of \<open>Build\<close> behind the prefix of \<open>New\<close>. When it
  succeeds, \<open>globalLogger\<close> is the logger just built, whatever it was before. After two
  successful calls the second logger is a different pointer from the first, and every
  later \<open>Get\<close> returns the second and leaves the state as it is.
\<close>

theorem InitGlobal_replaces_global:
  "fst (InitGlobal d cfg w) =
     map_option (\<lambda>err. ''failed to build logger: '' @ err) (buildError d (New_zapConfig d cfg))
   \<and> (fst (InitGlobal d cfg w) \<noteq> None \<longleftrightarrow> buildError d (New_zapConfig d cfg) \<noteq> None)
   \<and> (InitGlobal d cfg w = (None, w1) \<longrightarrow>
        (\<exists>p. New d cfg w = (Inr p, w1\<lparr>globalLogger := globalLogger w\<rparr>)
           \<and> globalLogger w1 = Some p))
   \<and> (InitGlobal d cfg w = (None, w1) \<longrightarrow> InitGlobal d cfg2 w1 = (None, w2) \<longrightarrow>
        (\<exists>p1 p2. globalLogger w1 = Some p1 \<and> globalLogger w2 = Some p2 \<and> p1 \<noteq> p2
           \<and> New d cfg2 w1 = (Inr p2, w2\<lparr>globalLogger := Some p1\<rparr>)
           \<and> Gets d n w2 = (replicate n (Some p2), w2)))"
proof -
  have err: "fst (InitGlobal d cfg w) =
     map_option (\<lambda>err. ''failed to build logger: '' @ err) (buildError d (New_zapConfig d cfg))"
  proof (cases "buildError d (New_zapConfig d cfg)")
    case None
    with InitGlobal_succeeds [OF None, of w] show ?thesis by auto
  next
    case (Some e)
    with InitGlobal_fails [OF Some, of w] show ?thesis by simp
  qed
  have one: "\<exists>p. New d c v = (Inr p, v1\<lparr>globalLogger := globalLogger v\<rparr>)
           \<and> globalLogger v1 = Some p \<and> p = length (loggers v)
           \<and> length (loggers v1) = Suc (length (loggers v))"
    if "InitGlobal d c v = (None, v1)" for c v v1
  proof (cases "buildError d (New_zapConfig d c)")
    case None
    with InitGlobal_succeeds [OF None, of v] that show ?thesis by auto
  next
    case (Some e)
    with InitGlobal_fails [OF Some, of v] that show ?thesis by simp
  qed
  have two: "\<exists>p1 p2. globalLogger w1 = Some p1 \<and> globalLogger w2 = Some p2 \<and> p1 \<noteq> p2
           \<and> New d cfg2 w1 = (Inr p2, w2\<lparr>globalLogger := Some p1\<rparr>)
           \<and> Gets d n w2 = (replicate n (Some p2), w2)"
    if a: "InitGlobal d cfg w = (None, w1)" and b: "InitGlobal d cfg2 w1 = (None, w2)"
  proof -
    from one [OF a] obtain p1 where p1: "globalLogger w1 = Some p1" "p1 = length (loggers w)"
      "length (loggers w1) = Suc (length (loggers w))" by blast
    from one [OF b] obtain p2 where p2: "globalLogger w2 = Some p2" "p2 = length (loggers w1)"
      "New d cfg2 w1 = (Inr p2, w2\<lparr>globalLogger := globalLogger w1\<rparr>)" by blast
    from p1 p2 Gets_initialized [OF p2(1), of d n] show ?thesis by simp
  qed
  from err one two show ?thesis by (cases "buildError d (New_zapConfig d cfg)") auto
qed

theorem InitGlobal_replaces_global_witness:
  "(let d = \<lparr>unicodeUpper = (\<lambda>s. s), buildError = (\<lambda>zc. None)\<rparr>;
        c1 = \<lparr>Level = ''DEBUG'', Environment = ''development'', ServiceName = ''first''\<rparr>;
        c2 = \<lparr>Level = ''ERROR'', Environment = ''production'', ServiceName = ''second''\<rparr>;
        w1 = snd (InitGlobal d c1 initialWorld);
        w2 = snd (InitGlobal d c2 w1)
    in InitGlobal d c1 initialWorld = (None, w1)
       \<and> InitGlobal d c2 w1 = (None, w2)
       \<and> globalLogger w1 = Some 0
       \<and> globalLogger w2 = Some 1
       \<and> New d c2 w1 = (Inr 1, w2\<lparr>globalLogger := Some 0\<rparr>)
       \<and> Gets d 3 w2 = ([Some 1, Some 1, Some 1], w2))"
proof -
  let ?d = "\<lparr>unicodeUpper = (\<lambda>s. s), buildError = (\<lambda>zc. None)\<rparr>"
  let ?c1 = "\<lparr>Level = ''DEBUG'', Environment = ''development'', ServiceName = ''first''\<rparr>"
  let ?c2 = "\<lparr>Level = ''ERROR'', Environment = ''production'', ServiceName = ''second''\<rparr>"
  let ?w1 = "snd (InitGlobal ?d ?c1 initialWorld)"
  let ?w2 = "snd (InitGlobal ?d ?c2 ?w1)"
  have h1: "InitGlobal ?d ?c1 initialWorld = (None, ?w1)" by code_simp
  have h2: "InitGlobal ?d ?c2 ?w1 = (None, ?w2)" by code_simp
  have g: "globalLogger ?w1 = Some 0" "globalLogger ?w2 = Some 1" by code_simp+
  from InitGlobal_replaces_global [of ?d ?c1 initialWorld ?w1 ?c2 ?w2 3] h1 h2
  obtain p1 p2 where "globalLogger ?w1 = Some p1" "globalLogger ?w2 = Some p2"
    "New ?d ?c2 ?w1 = (Inr p2, ?w2\<lparr>globalLogger := Some p1\<rparr>)"
    "Gets ?d 3 ?w2 = (replicate 3 (Some p2), ?w2)"
    by blast
  with g have "New ?d ?c2 ?w1 = (Inr 1, ?w2\<lparr>globalLogger := Some 0\<rparr>)"
    "Gets ?d 3 ?w2 = ([Some 1, Some 1, Some 1], ?w2)"
    by (simp_all add: numeral_3_eq_3)
  with h1 h2 g show ?thesis unfolding Let_def by blast
qed

text \<open>
  C5. When \<open>globalLogger\<close> is nil and zap builds the default configuration, \<open>Get\<close>
  returns a new logger made by \<open>New\<close> from the configuration INFO, development,
  gath-stack (threshold \<open>InfoLevel\<close>, console profile, the two fields attached), stores
  it in \<open>globalLogger\<close>, and every later \<open>Get\<close> returns that same pointer.
\<close>

theorem Get_installs_default:
  assumes "globalLogger w = None"
    and "buildError d (New_zapConfig d defaultConfig) = None"
  shows "\<exists>p w' lg. Get d w = (Some p, w')
           \<and> New d defaultConfig w = (Inr p, w'\<lparr>globalLogger := None\<rparr>)
           \<and> Level defaultConfig = ''INFO''
           \<and> Environment defaultConfig = ''development''
           \<and> ServiceName defaultConfig = ''gath-stack''
           \<and> globalLogger w' = Some p
           \<and> deref w' (Some p) = Some lg
           \<and> core_level (zapLogger lg) = InfoLevel
           \<and> core_encoding (zapLogger lg) = ''console''
           \<and> core_enc (zapLogger lg) = developmentEncoderConfig
           \<and> core_fields (zapLogger lg) =
               [zap_String ''service'' ''gath-stack'', zap_String ''environment'' ''development'']
           \<and> Gets d n w' = (replicate n (Some p), w')"
proof -
  from New_succeeds [OF assms(2), of w] obtain lg where
    n: "New d defaultConfig w = (Inr (length (loggers w)), w\<lparr>loggers := loggers w @ [lg]\<rparr>)"
    and l: "core_level (zapLogger lg) = New_zapLevel d (Level defaultConfig)"
      "core_encoding (zapLogger lg) = Encoding (New_zapConfig d defaultConfig)"
      "core_enc (zapLogger lg) = EncoderCfg (New_zapConfig d defaultConfig)"
      "core_fields (zapLogger lg) = [zap_String ''service'' (ServiceName defaultConfig),
          zap_String ''environment'' (Environment defaultConfig)]"
    by blast
  let ?p = "length (loggers w)"
  let ?w' = "w\<lparr>loggers := loggers w @ [lg], globalLogger := Some ?p\<rparr>"
  have g: "Get d w = (Some ?p, ?w')"
    using assms(1) n by (simp add: Get_def Let_def)
  have restore: "?w'\<lparr>globalLogger := None\<rparr> = w\<lparr>loggers := loggers w @ [lg]\<rparr>"
    using assms(1) by simp
  have lvl: "New_zapLevel d (Level defaultConfig) = InfoLevel"
    by (simp add: defaultConfig_def New_zapLevel_def ToUpper_def isASCII_names LevelInfo_def
        LevelDebug_def upperByte_names del: list.map)
  have prof: "Encoding (New_zapConfig d defaultConfig) = ''console''"
    "EncoderCfg (New_zapConfig d defaultConfig) = developmentEncoderConfig"
    by (simp_all add: New_zapConfig_def defaultConfig_def Let_def)
  have dc: "Level defaultConfig = ''INFO''" "Environment defaultConfig = ''development''"
    "ServiceName defaultConfig = ''gath-stack''"
    by (simp_all add: defaultConfig_def LevelInfo_def)
  have live: "deref ?w' (Some ?p) = Some lg"
    by (simp add: deref_Some)
  have inst: "globalLogger ?w' = Some ?p" by simp
  have again: "Gets d n ?w' = (replicate n (Some ?p), ?w')"
    by (rule Gets_initialized) simp
  show ?thesis
    using g n restore lvl prof dc live again l inst
    by (intro exI [of _ ?p] exI [of _ ?w'] exI [of _ lg]) (simp only: simp_thms)
qed

theorem Get_installs_default_witness:
  "(let d = \<lparr>unicodeUpper = (\<lambda>s. s), buildError = (\<lambda>zc. None)\<rparr>;
        w' = snd (Get d initialWorld)
    in globalLogger initialWorld = None
       \<and> buildError d (New_zapConfig d defaultConfig) = None
       \<and> Get d initialWorld = (Some 0, w')
       \<and> globalLogger w' = Some 0
       \<and> Gets d 2 w' = ([Some 0, Some 0], w'))"
proof -
  let ?d = "\<lparr>unicodeUpper = (\<lambda>s. s), buildError = (\<lambda>zc. None)\<rparr>"
  let ?w' = "snd (Get ?d initialWorld)"
  have h1: "globalLogger initialWorld = None" by (simp add: initialWorld_def)
  have h2: "buildError ?d (New_zapConfig ?d defaultConfig) = None" by simp
  have g: "fst (Get ?d initialWorld) = Some 0" by code_simp
  from Get_installs_default [OF h1 h2, of 2]
  obtain p w' where "Get ?d initialWorld = (Some p, w')" "globalLogger w' = Some p"
    "Gets ?d 2 w' = (replicate 2 (Some p), w')"
    by blast
  with g have "Get ?d initialWorld = (Some 0, ?w')" "globalLogger ?w' = Some 0"
    "Gets ?d 2 ?w' = ([Some 0, Some 0], ?w')"
    by (simp_all add: numeral_2_eq_2)
  with h1 h2 show ?thesis unfolding Let_def by blast
qed

text \<open>
  C6. When \<open>globalLogger\<close> is nil and zap refuses the default configuration, \<open>New\<close>
  returns an error but \<open>Get\<close> drops it: \<open>Get\<close> returns nil, nil is what it stores, and
  nothing else changes. The result of \<open>Get\<close> has no error component.
\<close>

theorem Get_swallows_failure:
  assumes "globalLogger w = None"
    and "buildError d (New_zapConfig d defaultConfig) = Some err"
  shows "Get d w = (None, w) \<and> (\<exists>e. fst (New d defaultConfig w) = Inl e)"
  using assms by (simp add: Get_def Let_def New_fails)

theorem Get_swallows_failure_witness:
  "(let d = \<lparr>unicodeUpper = (\<lambda>s. s), buildError = (\<lambda>zc. Some ''no sink'')\<rparr>
    in globalLogger initialWorld = None
       \<and> buildError d (New_zapConfig d defaultConfig) = Some ''no sink''
       \<and> Get d initialWorld = (None, initialWorld))"
proof -
  let ?d = "\<lparr>unicodeUpper = (\<lambda>s. s), buildError = (\<lambda>zc. Some ''no sink'')\<rparr>"
  have h1: "globalLogger initialWorld = None" by (simp add: initialWorld_def)
  have h2: "buildError ?d (New_zapConfig ?d defaultConfig) = Some ''no sink''" by simp
  from Get_swallows_failure [OF h1 h2] h1 h2 show ?thesis unfolding Let_def by blast
qed

text \<open>
  C7. \<open>WithContext\<close> on a live logger returns a new pointer and changes nothing that
  existed: the parent's cell holds what it held, every earlier cell is as it was, and
  \<open>globalLogger\<close> and the sink are untouched. A call on the parent after the derivation
  ends as it would have before and writes the same record, whose fields are the
  parent's own followed by those of the call, without the fields given to the child.
\<close>

theorem WithContext_leaves_parent:
  assumes "deref w (Some p) = Some lg"
  shows "\<exists>q w'. WithContext (Some p) flds w = Inr (q, w')
           \<and> q \<noteq> p
           \<and> deref w' (Some p) = Some lg
           \<and> take (length (loggers w)) (loggers w') = loggers w
           \<and> globalLogger w' = globalLogger w
           \<and> stdout w' = stdout w
           \<and> fst (Logger_log lvl (Some p) msg cf w') = fst (Logger_log lvl (Some p) msg cf w)
           \<and> written w' (snd (Logger_log lvl (Some p) msg cf w'))
               = written w (snd (Logger_log lvl (Some p) msg cf w))
           \<and> (\<forall>e \<in> set (written w' (snd (Logger_log lvl (Some p) msg cf w'))).
                 ent_fields e = core_fields (zapLogger lg) @ cf)"
proof -
  let ?w' = "w\<lparr>loggers := loggers w @ [\<lparr>zapLogger = zap_With (zapLogger lg) flds\<rparr>]\<rparr>"
  have p: "p < length (loggers w)" using assms by (simp add: deref_Some)
  have live: "deref ?w' (Some p) = Some lg" by (rule deref_grow [OF assms])
  have "WithContext (Some p) flds w = Inr (length (loggers w), ?w')"
    by (rule WithContext_live [OF assms])
  moreover have "length (loggers w) \<noteq> p" using p by simp
  moreover have "take (length (loggers w)) (loggers ?w') = loggers w" by simp
  moreover have "globalLogger ?w' = globalLogger w" "stdout ?w' = stdout w" by simp_all
  moreover have "fst (Logger_log lvl (Some p) msg cf ?w') = fst (Logger_log lvl (Some p) msg cf w)"
    using assms live by (simp add: Logger_log_def)
  moreover have "written ?w' (snd (Logger_log lvl (Some p) msg cf ?w'))
               = written w (snd (Logger_log lvl (Some p) msg cf w))"
    by (simp add: Logger_log_live [OF live] Logger_log_live [OF assms] written_def)
  moreover have "\<forall>e \<in> set (written ?w' (snd (Logger_log lvl (Some p) msg cf ?w'))).
                 ent_fields e = core_fields (zapLogger lg) @ cf"
    by (simp add: Logger_log_live [OF live] written_def)
  ultimately show ?thesis using live by blast
qed

theorem WithContext_leaves_parent_witness:
  "(let d = \<lparr>unicodeUpper = (\<lambda>s. s), buildError = (\<lambda>zc. None)\<rparr>;
        cfg = \<lparr>Level = ''INFO'', Environment = ''production'', ServiceName = ''api''\<rparr>;
        w = snd (New d cfg initialWorld);
        lg = loggers w ! 0;
        w' = snd (projr (WithContext (Some 0) [zap_String ''user_id'' ''abc123''] w))
    in deref w (Some 0) = Some lg
       \<and> WithContext (Some 0) [zap_String ''user_id'' ''abc123''] w = Inr (1, w')
       \<and> deref w' (Some 0) = Some lg
       \<and> map ent_fields (written w' (snd (Logger_log InfoLevel (Some 0) ''ping'' [] w')))
           = [[zap_String ''service'' ''api'', zap_String ''environment'' ''production'']]
       \<and> written w' (snd (Logger_log InfoLevel (Some 0) ''ping'' [] w'))
           = written w (snd (Logger_log InfoLevel (Some 0) ''ping'' [] w)))"
proof -
  let ?d = "\<lparr>unicodeUpper = (\<lambda>s. s), buildError = (\<lambda>zc. None)\<rparr>"
  let ?cfg = "\<lparr>Level = ''INFO'', Environment = ''production'', ServiceName = ''api''\<rparr>"
  let ?w = "snd (New ?d ?cfg initialWorld)"
  let ?lg = "loggers ?w ! 0"
  let ?w' = "snd (projr (WithContext (Some 0) [zap_String ''user_id'' ''abc123''] ?w))"
  have h: "deref ?w (Some 0) = Some ?lg" by code_simp
  have q: "fst (projr (WithContext (Some 0) [zap_String ''user_id'' ''abc123''] ?w)) = 1"
    by code_simp
  have f: "core_fields (zapLogger ?lg) =
      [zap_String ''service'' ''api'', zap_String ''environment'' ''production'']"
    by code_simp
  have ne: "length (written ?w (snd (Logger_log InfoLevel (Some 0) ''ping'' [] ?w))) = 1"
    by code_simp
  from WithContext_leaves_parent [OF h, of "[zap_String ''user_id'' ''abc123'']" InfoLevel "''ping''" "[]"]
  obtain q w' where r: "WithContext (Some 0) [zap_String ''user_id'' ''abc123''] ?w = Inr (q, w')"
    "deref w' (Some 0) = Some ?lg"
    "written w' (snd (Logger_log InfoLevel (Some 0) ''ping'' [] w'))
       = written ?w (snd (Logger_log InfoLevel (Some 0) ''ping'' [] ?w))"
    "\<forall>e \<in> set (written w' (snd (Logger_log InfoLevel (Some 0) ''ping'' [] w'))).
        ent_fields e = core_fields (zapLogger ?lg) @ []"
    by blast
  from r(1) q have w': "w' = ?w'" and q1: "q = 1" by simp_all
  from r(3) ne have "length (written w' (snd (Logger_log InfoLevel (Some 0) ''ping'' [] w'))) = Suc 0"
    by simp
  then obtain e where e: "written w' (snd (Logger_log InfoLevel (Some 0) ''ping'' [] w')) = [e]"
    by (auto simp: length_Suc_conv)
  with r(4) f have "map ent_fields (written w' (snd (Logger_log InfoLevel (Some 0) ''ping'' [] w')))
      = [[zap_String ''service'' ''api'', zap_String ''environment'' ''production'']]"
    by simp
  with h r w' q1 show ?thesis unfolding Let_def by blast
qed

text \<open>
  C8. Deriving from a live logger with the fields \<open>as\<close> and from the result with the
  fields \<open>bs\<close> succeeds, and the second logger's context is the first logger's context,
  then \<open>as\<close>, then \<open>bs\<close>. A record it writes has exactly these fields in this order,
  followed by the fields of the call. The lists are arbitrary, so a key that occurs more
  than once stays as often as it occurs.
\<close>

theorem WithContext_appends_in_order:
  assumes "deref w (Some p) = Some lg"
  shows "\<exists>q w1 r w2 lg2. WithContext (Some p) as w = Inr (q, w1)
           \<and> WithContext (Some q) bs w1 = Inr (r, w2)
           \<and> deref w2 (Some r) = Some lg2
           \<and> core_fields (zapLogger lg2) = core_fields (zapLogger lg) @ as @ bs
           \<and> (levelValue (core_level (zapLogger lg)) \<le> levelValue lvl \<longrightarrow>
                map ent_fields (written w2 (snd (Logger_log lvl (Some r) msg cf w2)))
                  = [core_fields (zapLogger lg) @ as @ bs @ cf])
           \<and> (\<forall>e \<in> set (written w2 (snd (Logger_log lvl (Some r) msg cf w2))).
                 ent_fields e = core_fields (zapLogger lg) @ as @ bs @ cf)"
proof -
  let ?lg1 = "\<lparr>zapLogger = zap_With (zapLogger lg) as\<rparr>"
  let ?w1 = "w\<lparr>loggers := loggers w @ [?lg1]\<rparr>"
  let ?q = "length (loggers w)"
  let ?lg2 = "\<lparr>zapLogger = zap_With (zapLogger ?lg1) bs\<rparr>"
  let ?w2 = "?w1\<lparr>loggers := loggers ?w1 @ [?lg2]\<rparr>"
  let ?r = "length (loggers ?w1)"
  have s1: "WithContext (Some p) as w = Inr (?q, ?w1)" by (rule WithContext_live [OF assms])
  have l1: "deref ?w1 (Some ?q) = Some ?lg1" by (rule deref_new)
  have s2: "WithContext (Some ?q) bs ?w1 = Inr (?r, ?w2)" by (rule WithContext_live [OF l1])
  have l2: "deref ?w2 (Some ?r) = Some ?lg2" by (rule deref_new)
  have f: "core_fields (zapLogger ?lg2) = core_fields (zapLogger lg) @ as @ bs"
    by (simp add: core_fields_zap_With)
  have k: "core_level (zapLogger ?lg2) = core_level (zapLogger lg)"
    by (simp add: zap_With_keeps)
  have e1: "levelValue (core_level (zapLogger lg)) \<le> levelValue lvl \<longrightarrow>
      map ent_fields (written ?w2 (snd (Logger_log lvl (Some ?r) msg cf ?w2)))
        = [core_fields (zapLogger lg) @ as @ bs @ cf]"
    unfolding Logger_log_live [OF l2] f k by (simp add: written_def Enabled_def)
  have e2: "\<forall>e \<in> set (written ?w2 (snd (Logger_log lvl (Some ?r) msg cf ?w2))).
      ent_fields e = core_fields (zapLogger lg) @ as @ bs @ cf"
    unfolding Logger_log_live [OF l2] f k by (simp add: written_def)
  show ?thesis
    by (intro exI conjI) (rule s1, rule s2, rule l2, rule f, rule e1, rule e2)
qed

theorem WithContext_appends_in_order_witness:
  "(let d = \<lparr>unicodeUpper = (\<lambda>s. s), buildError = (\<lambda>zc. None)\<rparr>;
        cfg = \<lparr>Level = ''INFO'', Environment = ''production'', ServiceName = ''api''\<rparr>;
        w = snd (New d cfg initialWorld);
        lg = loggers w ! 0;
        w1 = snd (projr (WithContext (Some 0) [zap_String ''k'' ''1''] w));
        w2 = snd (projr (WithContext (Some 1) [zap_String ''k'' ''2''] w1))
    in deref w (Some 0) = Some lg
       \<and> WithContext (Some 0) [zap_String ''k'' ''1''] w = Inr (1, w1)
       \<and> WithContext (Some 1) [zap_String ''k'' ''2''] w1 = Inr (2, w2)
       \<and> map ent_fields (written w2 (snd (Logger_log WarnLevel (Some 2) ''m'' [zap_String ''k'' ''3''] w2)))
           = [[zap_String ''service'' ''api'', zap_String ''environment'' ''production'',
               zap_String ''k'' ''1'', zap_String ''k'' ''2'', zap_String ''k'' ''3'']])"
proof -
  let ?d = "\<lparr>unicodeUpper = (\<lambda>s. s), buildError = (\<lambda>zc. None)\<rparr>"
  let ?cfg = "\<lparr>Level = ''INFO'', Environment = ''production'', ServiceName = ''api''\<rparr>"
  let ?w = "snd (New ?d ?cfg initialWorld)"
  let ?lg = "loggers ?w ! 0"
  let ?w1 = "snd (projr (WithContext (Some 0) [zap_String ''k'' ''1''] ?w))"
  let ?w2 = "snd (projr (WithContext (Some 1) [zap_String ''k'' ''2''] ?w1))"
  have h: "deref ?w (Some 0) = Some ?lg" by code_simp
  have q: "fst (projr (WithContext (Some 0) [zap_String ''k'' ''1''] ?w)) = 1"
    "fst (projr (WithContext (Some 1) [zap_String ''k'' ''2''] ?w1)) = 2"
    by code_simp+
  have f: "core_fields (zapLogger ?lg) =
      [zap_String ''service'' ''api'', zap_String ''environment'' ''production'']"
    by code_simp
  have l: "levelValue (core_level (zapLogger ?lg)) \<le> levelValue WarnLevel" by code_simp
  from WithContext_appends_in_order [OF h, of "[zap_String ''k'' ''1'']" "[zap_String ''k'' ''2'']"
      WarnLevel "''m''" "[zap_String ''k'' ''3'']"] l
  obtain q1 w1 r w2 where s: "WithContext (Some 0) [zap_String ''k'' ''1''] ?w = Inr (q1, w1)"
    "WithContext (Some q1) [zap_String ''k'' ''2''] w1 = Inr (r, w2)"
    "map ent_fields (written w2 (snd (Logger_log WarnLevel (Some r) ''m'' [zap_String ''k'' ''3''] w2)))
       = [core_fields (zapLogger ?lg) @ [zap_String ''k'' ''1''] @ [zap_String ''k'' ''2'']
           @ [zap_String ''k'' ''3'']]"
    by (elim exE conjE impE) (assumption, rule that)
  from s(1) q(1) have a: "q1 = 1" "w1 = ?w1" by simp_all
  from s(2) a q(2) have b: "r = 2" "w2 = ?w2" by simp_all
  from s a b f h show ?thesis unfolding Let_def by simp
qed

text \<open>
  C9. A call on a logger that \<open>New\<close> has built writes nothing when its level is below
  the threshold that \<open>New\<close> resolved from \<open>cfg.Level\<close>, and writes one record, with the
  level and message of the call, when its level is at or above it. With \<open>Level\<close> equal to
  \<open>LevelWarn\<close>: \<open>Debug\<close> and \<open>Info\<close> write nothing, \<open>Warn\<close> and \<open>Error\<close> write one
  record each.
\<close>

theorem New_level_threshold:
  assumes "New d cfg w = (Inr p, w1)"
  shows "(levelValue lvl < levelValue (New_zapLevel d (Level cfg)) \<longrightarrow>
            stdout (snd (Logger_log lvl (Some p) msg flds w1)) = stdout w1)
         \<and> (levelValue (New_zapLevel d (Level cfg)) \<le> levelValue lvl \<longrightarrow>
              (\<exists>e. stdout (snd (Logger_log lvl (Some p) msg flds w1)) = stdout w1 @ [e]
                 \<and> ent_level e = lvl \<and> ent_message e = msg))
         \<and> (Level cfg = LevelWarn \<longrightarrow>
              stdout (snd (Logger_Debug (Some p) msg flds w1)) = stdout w1
              \<and> stdout (snd (Logger_Info (Some p) msg flds w1)) = stdout w1
              \<and> (\<exists>e. stdout (snd (Logger_Warn (Some p) msg flds w1)) = stdout w1 @ [e]
                    \<and> ent_level e = WarnLevel \<and> ent_message e = msg)
              \<and> (\<exists>e. stdout (snd (Logger_Error (Some p) msg flds w1)) = stdout w1 @ [e]
                    \<and> ent_level e = ErrorLevel \<and> ent_message e = msg))"
proof -
  from New_succeeds [OF New_Inr [OF assms], of w] assms
  obtain lg where lg: "deref w1 (Some p) = Some lg"
    and t: "core_level (zapLogger lg) = New_zapLevel d (Level cfg)"
    by (auto simp: deref_new)
  have warn: "New_zapLevel d LevelWarn = WarnLevel"
    by (simp add: New_zapLevel_def ToUpper_def isASCII_names LevelInfo_def LevelWarn_def
        LevelDebug_def upperByte_names del: list.map)
  have below: "stdout (snd (Logger_log l (Some p) msg flds w1)) = stdout w1"
    if "levelValue l < levelValue (New_zapLevel d (Level cfg))" for l
    using that by (simp add: Logger_log_live [OF lg] t Enabled_def)
  have above: "\<exists>e. stdout (snd (Logger_log l (Some p) msg flds w1)) = stdout w1 @ [e]
      \<and> ent_level e = l \<and> ent_message e = msg"
    if "levelValue (New_zapLevel d (Level cfg)) \<le> levelValue l" for l
    using that by (simp add: Logger_log_live [OF lg] t Enabled_def)
  have "Level cfg = LevelWarn \<longrightarrow>
              stdout (snd (Logger_Debug (Some p) msg flds w1)) = stdout w1
              \<and> stdout (snd (Logger_Info (Some p) msg flds w1)) = stdout w1
              \<and> (\<exists>e. stdout (snd (Logger_Warn (Some p) msg flds w1)) = stdout w1 @ [e]
                    \<and> ent_level e = WarnLevel \<and> ent_message e = msg)
              \<and> (\<exists>e. stdout (snd (Logger_Error (Some p) msg flds w1)) = stdout w1 @ [e]
                    \<and> ent_level e = ErrorLevel \<and> ent_message e = msg)"
    using below [of DebugLevel] below [of InfoLevel] above [of WarnLevel] above [of ErrorLevel]
    by (simp add: warn Logger_Debug_def Logger_Info_def Logger_Warn_def Logger_Error_def)
  with below [of lvl] above [of lvl] show ?thesis by blast
qed

theorem New_level_threshold_witness:
  "(let d = \<lparr>unicodeUpper = (\<lambda>s. s), buildError = (\<lambda>zc. None)\<rparr>;
        cfg = \<lparr>Level = ''WARN'', Environment = ''development'', ServiceName = ''x''\<rparr>;
        w1 = snd (New d cfg initialWorld)
    in New d cfg initialWorld = (Inr 0, w1)
       \<and> stdout (snd (Logger_Debug (Some 0) ''d'' [] w1)) = []
       \<and> stdout (snd (Logger_Info (Some 0) ''i'' [] w1)) = []
       \<and> map ent_message (stdout (snd (Logger_Warn (Some 0) ''w'' [] w1))) = [''w'']
       \<and> map ent_message (stdout (snd (Logger_Error (Some 0) ''e'' [] w1))) = [''e'']
       \<and> map ent_level (stdout (snd (Logger_log FatalLevel (Some 0) ''f'' [] w1))) = [FatalLevel])"
proof -
  let ?d = "\<lparr>unicodeUpper = (\<lambda>s. s), buildError = (\<lambda>zc. None)\<rparr>"
  let ?cfg = "\<lparr>Level = ''WARN'', Environment = ''development'', ServiceName = ''x''\<rparr>"
  let ?w1 = "snd (New ?d ?cfg initialWorld)"
  have h: "New ?d ?cfg initialWorld = (Inr 0, ?w1)" by code_simp
  have s0: "stdout ?w1 = []" by code_simp
  have t: "New_zapLevel ?d (Level ?cfg) = WarnLevel" by code_simp
  have lw: "Level ?cfg = LevelWarn" by (simp add: LevelWarn_def)
  note gen = New_level_threshold [OF h, THEN conjunct2, THEN conjunct1, THEN mp]
  note warn = New_level_threshold [OF h, THEN conjunct2, THEN conjunct2, THEN mp, OF lw]
  have fatal: "levelValue (New_zapLevel ?d (Level ?cfg)) \<le> levelValue FatalLevel"
    by (simp only: t) simp
  from gen [OF fatal, of "''f''" "[]"] s0
  have a: "map ent_level (stdout (snd (Logger_log FatalLevel (Some 0) ''f'' [] ?w1))) = [FatalLevel]"
    by auto
  from warn [of "''d''" "[]"] s0
  have b: "stdout (snd (Logger_Debug (Some 0) ''d'' [] ?w1)) = []" by simp
  from warn [of "''i''" "[]"] s0
  have c: "stdout (snd (Logger_Info (Some 0) ''i'' [] ?w1)) = []" by simp
  from warn [of "''w''" "[]"] s0
  have d: "map ent_message (stdout (snd (Logger_Warn (Some 0) ''w'' [] ?w1))) = [''w'']" by auto
  from warn [of "''e''" "[]"] s0
  have e: "map ent_message (stdout (snd (Logger_Error (Some 0) ''e'' [] ?w1))) = [''e'']" by auto
  show ?thesis unfolding Let_def
    by (intro conjI) (rule h, rule b, rule c, rule d, rule e, rule a)
qed

text \<open>
  C10. \<open>FromEnv\<close> gives the same configuration whether a variable is set to the empty
  string or not set at all; each of the three fields is the variable's value when that is
  not empty and the default (INFO, development, gath-stack) otherwise, so none of them is
  ever empty.
\<close>

theorem FromEnv_empty_like_unset:
  "FromEnv (env(k \<mapsto> [])) = FromEnv (env(k := None))
   \<and> Level (FromEnv env) =
       (case env ''LOG_LEVEL'' of None \<Rightarrow> ''INFO'' | Some v \<Rightarrow> if v = [] then ''INFO'' else v)
   \<and> Environment (FromEnv env) =
       (case env ''APP_ENV'' of None \<Rightarrow> ''development'' | Some v \<Rightarrow> if v = [] then ''development'' else v)
   \<and> ServiceName (FromEnv env) =
       (case env ''APP_NAME'' of None \<Rightarrow> ''gath-stack'' | Some v \<Rightarrow> if v = [] then ''gath-stack'' else v)
   \<and> Level (FromEnv env) \<noteq> [] \<and> Environment (FromEnv env) \<noteq> [] \<and> ServiceName (FromEnv env) \<noteq> []"
  by (simp add: FromEnv_def getEnv_def os_Getenv_def split: option.splits)

end
